theory Spec2Isabelle
  imports Complex_Main "HOL-Library.AList" "HOL-Library.Sublist" "HOL-Library.Monad_Syntax"
begin

section \<open>Data model (scp/models.py)\<close>

text \<open>
  Python values are modelled as follows.  A \<^verbatim>\<open>str\<close> is a \<^typ>\<open>string\<close>, a \<^verbatim>\<open>float\<close> is a
  \<^typ>\<open>real\<close> (rounding is not modelled), an \<^verbatim>\<open>int\<close> is an \<^typ>\<open>int\<close>, \<^verbatim>\<open>Optional[T]\<close> is
  \<^typ>\<open>'a option\<close>.  A \<^verbatim>\<open>datetime\<close> is a point on a discrete time line, a natural number of
  microseconds; \<^verbatim>\<open>datetime.utcnow()\<close> is an explicit argument \<open>now\<close> of every operation that
  reads the clock.  A \<^verbatim>\<open>dict\<close> is an association list in insertion order with pairwise
  distinct keys.
\<close>

type_synonym datetime = nat

datatype Priority = CRITICAL | HIGH | MEDIUM | LOW

datatype Status = OPEN | IN_PROGRESS | PENDING_CUSTOMER | PENDING_MICROSOFT | RESOLVED | CLOSED

datatype EscalationFlag =
  EPS_CRITICAL | EPS_HIGH | BRANDON_FLAG | CUSTOMER_ESCALATION | MEDIA_ATTENTION

text \<open>The exceptions that the modelled code can raise.\<close>

datatype error = ValidationError | TypeError | AttributeError | AssertionError

text \<open>
  A value of type \<^verbatim>\<open>Any\<close>, as held by \<^verbatim>\<open>custom_fields\<close> and as produced by \<^verbatim>\<open>dict()\<close> and
  \<^verbatim>\<open>json.loads\<close>.  \<open>VDatetime\<close> stands for the values that JSON cannot represent.
\<close>

datatype pyval =
  VNone
| VBool bool
| VInt int
| VFloat real
| VStr string
| VList "pyval list"
| VDict "(string \<times> pyval) list"
| VDatetime datetime

record CaseTag =
  name :: string
  confidence :: real
  source :: string

record LogEntry =
  timestamp :: datetime
  content :: string
  log_source :: "string option"
  level :: "string option"

record CaseMetrics =
  response_time_hours :: "real option"
  resolution_time_hours :: "real option"
  customer_satisfaction :: "real option"
  engineering_effort_hours :: "real option"
  escalation_count :: int

record SupportCase =
  case_id :: string
  title :: string
  customer :: "string option"
  product_name :: "string option"
  component :: "string option"
  status :: Status
  priority :: Priority
  severity :: "string option"
  created_at :: datetime
  updated_at :: datetime
  due_date :: "datetime option"
  symptoms :: "string list"
  error_messages :: "string list"
  reproduction_steps :: "string list"
  root_cause :: "string option"
  solution :: "string option"
  workaround :: "string option"
  logs :: "LogEntry list"
  law_uri :: "string option"
  dcr_uri :: "string option"
  tags :: "CaseTag list"
  category :: "string option"
  subcategory :: "string option"
  escalation_flags :: "EscalationFlag list"
  brandon_flags :: "string list"
  related_cases :: "string list"
  parent_case :: "string option"
  description :: string
  rendered_description :: "string option"
  case_notes :: "string list"
  metrics :: CaseMetrics
  custom_fields :: "(string \<times> pyval) list"

text \<open>\<^verbatim>\<open>CaseMetrics()\<close>: every field at its default.\<close>

definition default_metrics :: CaseMetrics where
  "default_metrics =
     \<lparr>response_time_hours = None, resolution_time_hours = None, customer_satisfaction = None,
      engineering_effort_hours = None, escalation_count = 0\<rparr>"

text \<open>
  The fields \<^verbatim>\<open>product\<close> and \<^verbatim>\<open>notes\<close> of the source are \<open>product_name\<close> and \<open>case_notes\<close>
  here, and \<^verbatim>\<open>LogEntry.source\<close> is \<open>log_source\<close>.

  \<^verbatim>\<open>SupportCase.add_tag\<close>: the list comprehension that drops the tags of the same name is
  assigned to \<^verbatim>\<open>self.tags\<close> before \<^verbatim>\<open>CaseTag(...)\<close> is built, and \<^verbatim>\<open>CaseTag\<close> checks
  \<^verbatim>\<open>0.0 <= confidence <= 1.0\<close>.  So a call whose confidence is out of range raises after the
  old tag has gone; the function returns the exception, if any, and the case as it is left.
\<close>

definition add_tag :: "string \<Rightarrow> real \<Rightarrow> string \<Rightarrow> SupportCase \<Rightarrow> error option \<times> SupportCase" where
  "add_tag n conf src c =
     (let c' = c\<lparr>tags := filter (\<lambda>tag. name tag \<noteq> n) (tags c)\<rparr>
      in if 0 \<le> conf \<and> conf \<le> 1
         then (None, c'\<lparr>tags := tags c' @ [\<lparr>name = n, confidence = conf, source = src\<rparr>]\<rparr>)
         else (Some ValidationError, c'))"

text \<open>A sequence of \<^verbatim>\<open>add_tag\<close> calls on one case, the caller going on after a failed call.\<close>

fun add_tags :: "(string \<times> real \<times> string) list \<Rightarrow> SupportCase \<Rightarrow> SupportCase" where
  "add_tags [] c = c"
| "add_tags ((n, conf, src) # ops) c = add_tags ops (snd (add_tag n conf src c))"

subsection \<open>Text content\<close>

text \<open>\<^verbatim>\<open>sep.join(parts)\<close>.\<close>

fun join :: "string \<Rightarrow> string list \<Rightarrow> string" where
  "join sep [] = []"
| "join sep [x] = x"
| "join sep (x # y # ys) = x @ sep @ join sep (y # ys)"

text \<open>An \<^verbatim>\<open>Optional[str]\<close> appended to the parts only when it is truthy.\<close>

definition opt_part :: "string option \<Rightarrow> string list" where
  "opt_part v = (case v of None \<Rightarrow> [] | Some s \<Rightarrow> (if s = [] then [] else [s]))"

definition get_text_content :: "SupportCase \<Rightarrow> string" where
  "get_text_content c =
     (let content_parts =
            [title c, description c,
             join '' '' (symptoms c), join '' '' (error_messages c),
             join '' '' (reproduction_steps c), join '' '' (case_notes c)]
            @ opt_part (root_cause c) @ opt_part (solution c) @ opt_part (workaround c)
            @ map content (logs c)
            @ map name (tags c)
      in join '' '' (filter (\<lambda>p. p \<noteq> []) content_parts))"

section \<open>The case store (scp/memory.py)\<close>

text \<open>
  \<^verbatim>\<open>MemoryStore._cases\<close>, a dict from case id to case.  Assigning to an existing key keeps
  the key's position, assigning to a new key appends: this is \<^const>\<open>AList.update\<close>.
  The lock makes each operation atomic; operations are modelled one at a time.
\<close>

type_synonym MemoryStore = "(string \<times> SupportCase) list"

definition mem_add_case :: "datetime \<Rightarrow> SupportCase \<Rightarrow> MemoryStore \<Rightarrow> MemoryStore" where
  "mem_add_case now c s = AList.update (case_id c) (c\<lparr>updated_at := now\<rparr>) s"

definition mem_get_case :: "MemoryStore \<Rightarrow> string \<Rightarrow> SupportCase option" where
  "mem_get_case s cid = map_of s cid"

definition mem_get_all_cases :: "MemoryStore \<Rightarrow> SupportCase list" where
  "mem_get_all_cases s = map snd s"

definition mem_delete_case :: "string \<Rightarrow> MemoryStore \<Rightarrow> bool \<times> MemoryStore" where
  "mem_delete_case cid s =
     (if cid \<in> fst ` set s then (True, AList.delete cid s) else (False, s))"

text \<open>Truth value of an \<^verbatim>\<open>Optional[List[...]]\<close>: \<^verbatim>\<open>None\<close> and the empty list are both false.\<close>

definition truthy :: "'a list option \<Rightarrow> bool" where
  "truthy v = (case v of None \<Rightarrow> False | Some xs \<Rightarrow> xs \<noteq> [])"

text \<open>\<^verbatim>\<open>str.lower\<close> on the ASCII letters; every other character is left as it is.\<close>

definition lower_char :: "char \<Rightarrow> char" where
  "lower_char ch =
     (case map_of (zip ''ABCDEFGHIJKLMNOPQRSTUVWXYZ'' ''abcdefghijklmnopqrstuvwxyz'') ch of
        None \<Rightarrow> ch
      | Some l \<Rightarrow> l)"

definition lower :: "string \<Rightarrow> string" where
  "lower s = map lower_char s"

text \<open>\<^verbatim>\<open>sub in s\<close> for strings: \<open>sub\<close> occurs in \<open>s\<close> as a contiguous block.\<close>

fun contains :: "string \<Rightarrow> string \<Rightarrow> bool" where
  "contains [] sub = (sub = [])"
| "contains (ch # s) sub = (prefix sub (ch # s) \<or> contains s sub)"

definition mem_search_cases ::
  "string \<Rightarrow> Status list option \<Rightarrow> Priority list option \<Rightarrow> string list option
     \<Rightarrow> MemoryStore \<Rightarrow> SupportCase list" where
  "mem_search_cases query status_filter priority_filter case_ids s =
     (let cases = map snd s;
          cases = (if truthy case_ids
                   then filter (\<lambda>c. case_id c \<in> set (the case_ids)) cases else cases);
          cases = (if truthy status_filter
                   then filter (\<lambda>c. status c \<in> set (the status_filter)) cases else cases);
          cases = (if truthy priority_filter
                   then filter (\<lambda>c. priority c \<in> set (the priority_filter)) cases else cases);
          cases = (if query \<noteq> []
                   then filter (\<lambda>c. contains (lower (get_text_content c)) (lower query)) cases
                   else cases)
      in cases)"

text \<open>
  The representation invariant of the store: keys are pairwise distinct, as in any dict,
  and every case is filed under its own id, as \<^verbatim>\<open>add_case\<close> files it.
\<close>

definition store_inv :: "MemoryStore \<Rightarrow> bool" where
  "store_inv s = (distinct (map fst s) \<and> list_all (\<lambda>(k, c). case_id c = k) s)"

section \<open>The similarity indexes (scp/search.py)\<close>

subsection \<open>Helpers for Python lists and strings\<close>

text \<open>\<^verbatim>\<open>xs[:k]\<close>: a negative \<open>k\<close> drops the last \<open>-k\<close> elements.\<close>

definition py_take :: "int \<Rightarrow> 'a list \<Rightarrow> 'a list" where
  "py_take k xs = (if 0 \<le> k then take (nat k) xs else take (length xs - nat (- k)) xs)"

text \<open>
  \<^verbatim>\<open>list.sort(key=score, reverse=True)\<close>: a stable sort, the higher score first; elements
  of equal score keep their order.
\<close>

definition sort_desc :: "('a \<Rightarrow> real) \<Rightarrow> 'a list \<Rightarrow> 'a list" where
  "sort_desc score xs = sort_key (\<lambda>x. - score x) xs"

text \<open>The ASCII characters that \<^verbatim>\<open>str.split()\<close> and \<^verbatim>\<open>str.strip()\<close> treat as white space.\<close>

definition is_space :: "char \<Rightarrow> bool" where
  "is_space ch =
     (ch \<in> set [CHR 0x09, CHR 0x0A, CHR 0x0B, CHR 0x0C, CHR 0x0D,
                 CHR 0x1C, CHR 0x1D, CHR 0x1E, CHR 0x1F, CHR 0x20])"

text \<open>\<^verbatim>\<open>str.split()\<close>: the maximal runs of characters that are not white space.\<close>

fun split_from :: "string \<Rightarrow> string \<Rightarrow> string list" where
  "split_from word [] = (if word = [] then [] else [rev word])"
| "split_from word (ch # s) =
     (if is_space ch
      then (if word = [] then split_from [] s else rev word # split_from [] s)
      else split_from (ch # word) s)"

definition split :: "string \<Rightarrow> string list" where
  "split s = split_from [] s"

subsection \<open>SimpleSearchEngine: token-set Jaccard similarity\<close>

text \<open>\<^verbatim>\<open>SimpleSearchEngine.cases\<close>, a dict from case id to case.\<close>

type_synonym SimpleSearchEngine = "(string \<times> SupportCase) list"

definition simple_add_case :: "SupportCase \<Rightarrow> SimpleSearchEngine \<Rightarrow> SimpleSearchEngine" where
  "simple_add_case c e = AList.update (case_id c) c e"

definition simple_update_case :: "SupportCase \<Rightarrow> SimpleSearchEngine \<Rightarrow> SimpleSearchEngine" where
  "simple_update_case c e = AList.update (case_id c) c e"


definition simple_rebuild_index :: "SupportCase list \<Rightarrow> SimpleSearchEngine" where
  "simple_rebuild_index cases = foldl (\<lambda>e c. AList.update (case_id c) c e) [] cases"

text \<open>
  The score of one case in \<^verbatim>\<open>SimpleSearchEngine.search\<close>: the words of the query and of the
  case text as sets, the size of their intersection over the size of their union.
\<close>

definition jaccard :: "string list \<Rightarrow> string list \<Rightarrow> real" where
  "jaccard query_words case_words =
     real (card (set query_words \<inter> set case_words))
       / real (card (set query_words \<union> set case_words))"

definition simple_search ::
  "string \<Rightarrow> int \<Rightarrow> real \<Rightarrow> SimpleSearchEngine \<Rightarrow> (string \<times> real) list" where
  "simple_search query k threshold e =
     (let query_words = split (lower query)
      in if set query_words = {} then []
         else
           let results =
                 concat (map (\<lambda>(cid, c).
                     let case_words = split (lower (get_text_content c))
                     in if 0 < card (set query_words \<union> set case_words)
                        then (if threshold \<le> jaccard query_words case_words
                              then [(cid, jaccard query_words case_words)] else [])
                        else []) e)
           in py_take k (sort_desc snd results))"

definition simple_find_similar_cases ::
  "SupportCase \<Rightarrow> int \<Rightarrow> real \<Rightarrow> SimpleSearchEngine \<Rightarrow> (string \<times> real) list" where
  "simple_find_similar_cases c k threshold e =
     filter (\<lambda>(cid, score). cid \<noteq> case_id c)
       (simple_search (get_text_content c) (k + 1) threshold e)"

subsection \<open>VectorSearchEngine: inner product of embeddings\<close>

text \<open>
  The sentence encoder is outside the repository: it is an argument \<open>enc\<close>, a function from
  a text to its embedding, a vector of reals.  The FAISS index \<^verbatim>\<open>IndexFlatIP\<close> is the list
  of the vectors added so far; \<^verbatim>\<open>case_ids\<close> is the parallel list of ids.  Neither
  \<^verbatim>\<open>remove_case\<close> nor \<^verbatim>\<open>update_case\<close> ever takes an entry out.
\<close>

record VectorSearchEngine =
  vec_index :: "real list list"
  vec_case_ids :: "string list"

definition empty_vector_engine :: VectorSearchEngine where
  "empty_vector_engine = \<lparr>vec_index = [], vec_case_ids = []\<rparr>"

definition encode_text :: "(string \<Rightarrow> real list) \<Rightarrow> string \<Rightarrow> real list" where
  "encode_text enc text = (if list_all is_space text then enc ''empty case'' else enc text)"

definition vec_add_case ::
  "(string \<Rightarrow> real list) \<Rightarrow> SupportCase \<Rightarrow> VectorSearchEngine \<Rightarrow> VectorSearchEngine" where
  "vec_add_case enc c e =
     e\<lparr>vec_index := vec_index e @ [encode_text enc (get_text_content c)],
       vec_case_ids := vec_case_ids e @ [case_id c]\<rparr>"

definition vec_remove_case :: "string \<Rightarrow> VectorSearchEngine \<Rightarrow> bool \<times> VectorSearchEngine" where
  "vec_remove_case cid e = (cid \<in> set (vec_case_ids e), e)"

definition vec_update_case ::
  "(string \<Rightarrow> real list) \<Rightarrow> SupportCase \<Rightarrow> VectorSearchEngine \<Rightarrow> VectorSearchEngine" where
  "vec_update_case enc c e =
     (let e' = (if case_id c \<in> set (vec_case_ids e) then snd (vec_remove_case (case_id c) e)
                else e)
      in vec_add_case enc c e')"

definition vec_rebuild_index ::
  "(string \<Rightarrow> real list) \<Rightarrow> SupportCase list \<Rightarrow> VectorSearchEngine" where
  "vec_rebuild_index enc cases = foldl (\<lambda>e c. vec_add_case enc c e) empty_vector_engine cases"

definition inner_product :: "real list \<Rightarrow> real list \<Rightarrow> real" where
  "inner_product xs ys = sum_list (map2 (*) xs ys)"

text \<open>
  \<^verbatim>\<open>IndexFlatIP.search(q, k)\<close> of the FAISS library: it asserts \<open>k > 0\<close> and returns \<open>k\<close>
  pairs of a score and a position, the highest inner product first; when the index holds
  fewer than \<open>k\<close> vectors the rest of the answer has the position \<open>-1\<close>.
\<close>

definition faiss_search :: "real list list \<Rightarrow> real list \<Rightarrow> int \<Rightarrow> error + (real \<times> int) list" where
  "faiss_search vecs q k =
     (if k \<le> 0 then Inl AssertionError
      else
        let scored = zip (map (inner_product q) vecs) (map int [0..<length vecs])
        in Inr (take (nat k) (sort_desc fst scored)
                  @ replicate (nat k - length vecs) (0, - 1)))"

text \<open>
  The body of the loop of \<^verbatim>\<open>VectorSearchEngine.search\<close>: a pair of the answer is kept when
  its position is one of \<^verbatim>\<open>case_ids\<close> and its score reaches the threshold.
\<close>

definition vec_hit :: "string list \<Rightarrow> real \<Rightarrow> real \<times> int \<Rightarrow> (string \<times> real) list" where
  "vec_hit ids threshold hit =
     (case hit of (score, idx) \<Rightarrow>
        if 0 \<le> idx \<and> idx < int (length ids)
        then (if threshold \<le> score then [(ids ! nat idx, score)] else [])
        else [])"

definition vec_search ::
  "(string \<Rightarrow> real list) \<Rightarrow> string \<Rightarrow> int \<Rightarrow> real \<Rightarrow> VectorSearchEngine
     \<Rightarrow> error + (string \<times> real) list" where
  "vec_search enc query k threshold e =
     (if length (vec_index e) = 0 then Inr []
      else
        case faiss_search (vec_index e) (encode_text enc query)
               (min k (int (length (vec_case_ids e)))) of
          Inl err \<Rightarrow> Inl err
        | Inr hits \<Rightarrow> Inr (concat (map (vec_hit (vec_case_ids e) threshold) hits)))"

definition vec_find_similar_cases ::
  "(string \<Rightarrow> real list) \<Rightarrow> SupportCase \<Rightarrow> int \<Rightarrow> real \<Rightarrow> VectorSearchEngine
     \<Rightarrow> error + (string \<times> real) list" where
  "vec_find_similar_cases enc c k threshold e =
     vec_search enc (get_text_content c) (k + 1) threshold e"

section \<open>The orchestrator (scp/core.py)\<close>

text \<open>
  \<^verbatim>\<open>SCPManager.__init__\<close> sets \<^verbatim>\<open>search_engine\<close> and \<^verbatim>\<open>vector_search_enabled\<close> together: the flag
  is true exactly when the engine is a \<^verbatim>\<open>VectorSearchEngine\<close>.
\<close>

datatype engine = Vector VectorSearchEngine | Simple SimpleSearchEngine

record SCPManager =
  memory :: MemoryStore
  search_engine :: engine

definition vector_search_enabled :: "SCPManager \<Rightarrow> bool" where
  "vector_search_enabled m = (case search_engine m of Vector e \<Rightarrow> True | Simple e \<Rightarrow> False)"

record CaseQuery =
  query :: string
  limit :: int
  q_case_ids :: "string list option"
  status_filter :: "Status list option"
  priority_filter :: "Priority list option"
  date_from :: "datetime option"
  date_to :: "datetime option"
  q_tags :: "string list option"

text \<open>\<^verbatim>\<open>CaseQuery(query=text)\<close>, every other field at its default.\<close>

definition text_query :: "string \<Rightarrow> CaseQuery" where
  "text_query text =
     \<lparr>query = text, limit = 10, q_case_ids = None, status_filter = None,
      priority_filter = None, date_from = None, date_to = None, q_tags = None\<rparr>"

record SearchResult =
  result_case :: SupportCase
  similarity_score :: real
  matched_fields :: "string list"

text \<open>\<^verbatim>\<open>SearchResult(case=c, similarity_score=s, matched_fields=[])\<close>; the model checks
  \<^verbatim>\<open>0.0 <= similarity_score <= 1.0\<close>.\<close>

definition make_result :: "SupportCase \<Rightarrow> real \<Rightarrow> error + SearchResult" where
  "make_result c s =
     (if 0 \<le> s \<and> s \<le> 1
      then Inr \<lparr>result_case = c, similarity_score = s, matched_fields = []\<rparr>
      else Inl ValidationError)"

text \<open>A loop that builds a list and stops at the first exception.\<close>

fun collect :: "(error + 'a) list \<Rightarrow> error + 'a list" where
  "collect [] = Inr []"
| "collect (x # xs) =
     (case x of
        Inl err \<Rightarrow> Inl err
      | Inr v \<Rightarrow> (case collect xs of Inl err \<Rightarrow> Inl err | Inr vs \<Rightarrow> Inr (v # vs)))"

definition scp_add_case ::
  "datetime \<Rightarrow> (string \<Rightarrow> real list) \<Rightarrow> SupportCase \<Rightarrow> SCPManager \<Rightarrow> SCPManager" where
  "scp_add_case now enc c m =
     (let c' = c\<lparr>updated_at := now\<rparr>
      in \<lparr>memory = mem_add_case now c (memory m),
          search_engine =
            (case search_engine m of
               Vector e \<Rightarrow> Vector (vec_add_case enc c' e)
             | Simple e \<Rightarrow> Simple (simple_add_case c' e))\<rparr>)"







text \<open>
  The body of the loop of \<^verbatim>\<open>SCPManager.find_similar_cases\<close>: a pair of the index's answer
  becomes a result unless its id is the id asked for or the store no longer has the case.
\<close>

definition similar_hit ::
  "MemoryStore \<Rightarrow> string \<Rightarrow> string \<times> real \<Rightarrow> (error + SearchResult) list" where
  "similar_hit s cid hit =
     (case hit of (similar_case_id, score) \<Rightarrow>
        if similar_case_id \<noteq> cid
        then (case mem_get_case s similar_case_id of
                None \<Rightarrow> []
              | Some similar_case \<Rightarrow> [make_result similar_case score])
        else [])"

definition scp_find_similar_cases ::
  "(string \<Rightarrow> real list) \<Rightarrow> string \<Rightarrow> int \<Rightarrow> real \<Rightarrow> SCPManager \<Rightarrow> error + SearchResult list" where
  "scp_find_similar_cases enc cid max_results threshold m =
     (case mem_get_case (memory m) cid of
        None \<Rightarrow> Inr []
      | Some c \<Rightarrow>
          (case (case search_engine m of
                   Vector e \<Rightarrow> vec_find_similar_cases enc c max_results threshold e
                 | Simple e \<Rightarrow> Inr (simple_find_similar_cases c max_results threshold e)) of
             Inl err \<Rightarrow> Inl err
           | Inr similar_results \<Rightarrow>
               collect (concat (map (similar_hit (memory m) cid) similar_results))))"

section \<open>Snapshot and restore (scp/memory.py, scp/models.py)\<close>

subsection \<open>The values of the enumerations\<close>

definition status_value :: "Status \<Rightarrow> string" where
  "status_value st =
     (case st of
        OPEN \<Rightarrow> ''open'' | IN_PROGRESS \<Rightarrow> ''in_progress''
      | PENDING_CUSTOMER \<Rightarrow> ''pending_customer'' | PENDING_MICROSOFT \<Rightarrow> ''pending_microsoft''
      | RESOLVED \<Rightarrow> ''resolved'' | CLOSED \<Rightarrow> ''closed'')"

definition priority_value :: "Priority \<Rightarrow> string" where
  "priority_value p =
     (case p of CRITICAL \<Rightarrow> ''critical'' | HIGH \<Rightarrow> ''high'' | MEDIUM \<Rightarrow> ''medium'' | LOW \<Rightarrow> ''low'')"

definition flag_value :: "EscalationFlag \<Rightarrow> string" where
  "flag_value f =
     (case f of
        EPS_CRITICAL \<Rightarrow> ''eps_critical'' | EPS_HIGH \<Rightarrow> ''eps_high''
      | BRANDON_FLAG \<Rightarrow> ''brandon_flag'' | CUSTOMER_ESCALATION \<Rightarrow> ''customer_escalation''
      | MEDIA_ATTENTION \<Rightarrow> ''media_attention'')"

definition status_of :: "string \<Rightarrow> Status option" where
  "status_of v =
     map_of (map (\<lambda>st. (status_value st, st))
       [OPEN, IN_PROGRESS, PENDING_CUSTOMER, PENDING_MICROSOFT, RESOLVED, CLOSED]) v"

definition priority_of :: "string \<Rightarrow> Priority option" where
  "priority_of v = map_of (map (\<lambda>p. (priority_value p, p)) [CRITICAL, HIGH, MEDIUM, LOW]) v"

definition flag_of :: "string \<Rightarrow> EscalationFlag option" where
  "flag_of v =
     map_of (map (\<lambda>f. (flag_value f, f))
       [EPS_CRITICAL, EPS_HIGH, BRANDON_FLAG, CUSTOMER_ESCALATION, MEDIA_ATTENTION]) v"

subsection \<open>Time stamps as text\<close>

text \<open>
  \<^verbatim>\<open>str(datetime)\<close> and the validator's reading of such a text.  The calendar format is
  abstracted: the text of a time stamp is the decimal numeral of its microsecond count.
\<close>

definition digit_char :: "nat \<Rightarrow> char" where
  "digit_char n = ''0123456789'' ! n"

definition digit_val :: "char \<Rightarrow> nat option" where
  "digit_val ch = map_of (zip ''0123456789'' [0, 1, 2, 3, 4, 5, 6, 7, 8, 9]) ch"

function datetime_str :: "datetime \<Rightarrow> string" where
  "datetime_str n =
     (if n < 10 then [digit_char n] else datetime_str (n div 10) @ [digit_char (n mod 10)])"
  by pat_completeness auto
termination
  by (relation "measure id") auto

fun read_digits :: "nat \<Rightarrow> string \<Rightarrow> nat option" where
  "read_digits acc [] = Some acc"
| "read_digits acc (ch # s) =
     (case digit_val ch of None \<Rightarrow> None | Some v \<Rightarrow> read_digits (acc * 10 + v) s)"

definition parse_datetime :: "string \<Rightarrow> datetime option" where
  "parse_datetime s = (if s = [] then None else read_digits 0 s)"

subsection \<open>\<^verbatim>\<open>dict()\<close> and the JSON text\<close>

definition opt_str_val :: "string option \<Rightarrow> pyval" where
  "opt_str_val v = (case v of None \<Rightarrow> VNone | Some s \<Rightarrow> VStr s)"

definition opt_float_val :: "real option \<Rightarrow> pyval" where
  "opt_float_val v = (case v of None \<Rightarrow> VNone | Some r \<Rightarrow> VFloat r)"


definition str_list_val :: "string list \<Rightarrow> pyval" where
  "str_list_val xs = VList (map VStr xs)"





text \<open>
  \<^verbatim>\<open>json.loads(json.dumps(v, default=str))\<close>: the JSON text is not modelled, only the value
  that reading it back gives.  What JSON cannot represent is written as its \<^verbatim>\<open>str\<close>.
\<close>

fun json_value :: "pyval \<Rightarrow> pyval" where
  "json_value VNone = VNone"
| "json_value (VBool b) = VBool b"
| "json_value (VInt i) = VInt i"
| "json_value (VFloat r) = VFloat r"
| "json_value (VStr s) = VStr s"
| "json_value (VList vs) = VList (map json_value vs)"
| "json_value (VDict kvs) = VDict (map (\<lambda>(k, v). (k, json_value v)) kvs)"
| "json_value (VDatetime d) = VStr (datetime_str d)"



subsection \<open>Validation: \<^verbatim>\<open>SupportCase(**case_data)\<close>\<close>

text \<open>
  The validation of the pydantic models, on the shapes that \<^verbatim>\<open>dict()\<close> and the JSON text
  produce: a field that is absent takes its default, \<^verbatim>\<open>None\<close> is accepted by the optional
  fields only, and a value of another type is rejected (\<open>None\<close> stands for the
  \<^verbatim>\<open>ValidationError\<close>).  Keys that name no field are ignored.
\<close>

definition req_str :: "(string \<times> pyval) list \<Rightarrow> string \<Rightarrow> string option" where
  "req_str d k = (case map_of d k of Some (VStr s) \<Rightarrow> Some s | _ \<Rightarrow> None)"

definition str_or :: "string \<Rightarrow> (string \<times> pyval) list \<Rightarrow> string \<Rightarrow> string option" where
  "str_or dflt d k = (case map_of d k of None \<Rightarrow> Some dflt | Some (VStr s) \<Rightarrow> Some s | _ \<Rightarrow> None)"

definition opt_str :: "(string \<times> pyval) list \<Rightarrow> string \<Rightarrow> string option option" where
  "opt_str d k =
     (case map_of d k of
        None \<Rightarrow> Some None | Some VNone \<Rightarrow> Some None | Some (VStr s) \<Rightarrow> Some (Some s)
      | _ \<Rightarrow> None)"

definition float_of :: "pyval \<Rightarrow> real option" where
  "float_of v = (case v of VFloat r \<Rightarrow> Some r | VInt i \<Rightarrow> Some (real_of_int i) | _ \<Rightarrow> None)"

definition opt_float :: "(string \<times> pyval) list \<Rightarrow> string \<Rightarrow> real option option" where
  "opt_float d k =
     (case map_of d k of
        None \<Rightarrow> Some None | Some VNone \<Rightarrow> Some None
      | Some v \<Rightarrow> map_option Some (float_of v))"

definition datetime_of :: "pyval \<Rightarrow> datetime option" where
  "datetime_of v = (case v of VDatetime t \<Rightarrow> Some t | VStr s \<Rightarrow> parse_datetime s | _ \<Rightarrow> None)"

definition datetime_or :: "datetime \<Rightarrow> (string \<times> pyval) list \<Rightarrow> string \<Rightarrow> datetime option" where
  "datetime_or dflt d k = (case map_of d k of None \<Rightarrow> Some dflt | Some v \<Rightarrow> datetime_of v)"

definition opt_datetime :: "(string \<times> pyval) list \<Rightarrow> string \<Rightarrow> datetime option option" where
  "opt_datetime d k =
     (case map_of d k of
        None \<Rightarrow> Some None | Some VNone \<Rightarrow> Some None
      | Some v \<Rightarrow> map_option Some (datetime_of v))"

text \<open>All elements of a list validated, or none.\<close>

fun all_some :: "'a option list \<Rightarrow> 'a list option" where
  "all_some [] = Some []"
| "all_some (x # xs) =
     (case x of None \<Rightarrow> None
      | Some v \<Rightarrow> (case all_some xs of None \<Rightarrow> None | Some vs \<Rightarrow> Some (v # vs)))"

definition list_field ::
  "(pyval \<Rightarrow> 'a option) \<Rightarrow> (string \<times> pyval) list \<Rightarrow> string \<Rightarrow> 'a list option" where
  "list_field elem d k =
     (case map_of d k of
        None \<Rightarrow> Some [] | Some (VList vs) \<Rightarrow> all_some (map elem vs) | _ \<Rightarrow> None)"

definition str_of :: "pyval \<Rightarrow> string option" where
  "str_of v = (case v of VStr s \<Rightarrow> Some s | _ \<Rightarrow> None)"

definition flag_of_val :: "pyval \<Rightarrow> EscalationFlag option" where
  "flag_of_val v = (case v of VStr s \<Rightarrow> flag_of s | _ \<Rightarrow> None)"

definition validate_tag :: "pyval \<Rightarrow> CaseTag option" where
  "validate_tag v =
     (case v of
        VDict d \<Rightarrow>
          do {
            n \<leftarrow> req_str d ''name'';
            conf \<leftarrow> Option.bind (map_of d ''confidence'') float_of;
            src \<leftarrow> req_str d ''source'';
            if 0 \<le> conf \<and> conf \<le> 1
            then Some \<lparr>name = n, confidence = conf, source = src\<rparr> else None
          }
      | _ \<Rightarrow> None)"

definition validate_log :: "datetime \<Rightarrow> pyval \<Rightarrow> LogEntry option" where
  "validate_log now v =
     (case v of
        VDict d \<Rightarrow>
          do {
            ts \<leftarrow> datetime_or now d ''timestamp'';
            text \<leftarrow> req_str d ''content'';
            src \<leftarrow> opt_str d ''source'';
            lvl \<leftarrow> opt_str d ''level'';
            Some \<lparr>timestamp = ts, content = text, log_source = src, level = lvl\<rparr>
          }
      | _ \<Rightarrow> None)"

definition validate_metrics :: "(string \<times> pyval) list \<Rightarrow> string \<Rightarrow> CaseMetrics option" where
  "validate_metrics d k =
     (case map_of d k of
        None \<Rightarrow> Some default_metrics
      | Some (VDict md) \<Rightarrow>
          do {
            response \<leftarrow> opt_float md ''response_time_hours'';
            resolution \<leftarrow> opt_float md ''resolution_time_hours'';
            satisfaction \<leftarrow> opt_float md ''customer_satisfaction'';
            effort \<leftarrow> opt_float md ''engineering_effort_hours'';
            escalations \<leftarrow> (case map_of md ''escalation_count'' of
                              None \<Rightarrow> Some 0 | Some (VInt i) \<Rightarrow> Some i | _ \<Rightarrow> None);
            if (case satisfaction of None \<Rightarrow> True | Some r \<Rightarrow> 1 \<le> r \<and> r \<le> 5)
            then Some \<lparr>response_time_hours = response, resolution_time_hours = resolution,
                       customer_satisfaction = satisfaction, engineering_effort_hours = effort,
                       escalation_count = escalations\<rparr>
            else None
          }
      | _ \<Rightarrow> None)"

definition validate_case :: "datetime \<Rightarrow> (string \<times> pyval) list \<Rightarrow> SupportCase option" where
  "validate_case now d =
     do {
       v_case_id \<leftarrow> req_str d ''case_id'';
       v_title \<leftarrow> req_str d ''title'';
       v_customer \<leftarrow> opt_str d ''customer'';
       v_product \<leftarrow> opt_str d ''product'';
       v_component \<leftarrow> opt_str d ''component'';
       v_status \<leftarrow> (case map_of d ''status'' of
                      None \<Rightarrow> Some OPEN | Some (VStr s) \<Rightarrow> status_of s | _ \<Rightarrow> None);
       v_priority \<leftarrow> (case map_of d ''priority'' of
                        None \<Rightarrow> Some MEDIUM | Some (VStr s) \<Rightarrow> priority_of s | _ \<Rightarrow> None);
       v_severity \<leftarrow> opt_str d ''severity'';
       v_created_at \<leftarrow> datetime_or now d ''created_at'';
       v_due_date \<leftarrow> opt_datetime d ''due_date'';
       v_symptoms \<leftarrow> list_field str_of d ''symptoms'';
       v_error_messages \<leftarrow> list_field str_of d ''error_messages'';
       v_reproduction_steps \<leftarrow> list_field str_of d ''reproduction_steps'';
       v_root_cause \<leftarrow> opt_str d ''root_cause'';
       v_solution \<leftarrow> opt_str d ''solution'';
       v_workaround \<leftarrow> opt_str d ''workaround'';
       v_logs \<leftarrow> list_field (validate_log now) d ''logs'';
       v_law_uri \<leftarrow> opt_str d ''law_uri'';
       v_dcr_uri \<leftarrow> opt_str d ''dcr_uri'';
       v_tags \<leftarrow> list_field validate_tag d ''tags'';
       v_category \<leftarrow> opt_str d ''category'';
       v_subcategory \<leftarrow> opt_str d ''subcategory'';
       v_escalation_flags \<leftarrow> list_field flag_of_val d ''escalation_flags'';
       v_brandon_flags \<leftarrow> list_field str_of d ''brandon_flags'';
       v_related_cases \<leftarrow> list_field str_of d ''related_cases'';
       v_parent_case \<leftarrow> opt_str d ''parent_case'';
       v_description \<leftarrow> str_or [] d ''description'';
       v_rendered_description \<leftarrow> opt_str d ''rendered_description'';
       v_notes \<leftarrow> list_field str_of d ''notes'';
       v_metrics \<leftarrow> validate_metrics d ''metrics'';
       v_custom_fields \<leftarrow> (case map_of d ''custom_fields'' of
                             None \<Rightarrow> Some [] | Some (VDict cf) \<Rightarrow> Some cf | _ \<Rightarrow> None);
       Some \<lparr>case_id = v_case_id, title = v_title, customer = v_customer,
             product_name = v_product, component = v_component, status = v_status,
             priority = v_priority, severity = v_severity, created_at = v_created_at,
             updated_at = now, due_date = v_due_date, symptoms = v_symptoms,
             error_messages = v_error_messages, reproduction_steps = v_reproduction_steps,
             root_cause = v_root_cause, solution = v_solution, workaround = v_workaround,
             logs = v_logs, law_uri = v_law_uri, dcr_uri = v_dcr_uri, tags = v_tags,
             category = v_category, subcategory = v_subcategory,
             escalation_flags = v_escalation_flags, brandon_flags = v_brandon_flags,
             related_cases = v_related_cases, parent_case = v_parent_case,
             description = v_description, rendered_description = v_rendered_description,
             case_notes = v_notes, metrics = v_metrics, custom_fields = v_custom_fields\<rparr>
     }"

text \<open>The constraints that validation puts on the fields of a case.\<close>

definition valid_case :: "SupportCase \<Rightarrow> bool" where
  "valid_case c =
     (list_all (\<lambda>tag. 0 \<le> confidence tag \<and> confidence tag \<le> 1) (tags c)
      \<and> (case customer_satisfaction (metrics c) of None \<Rightarrow> True | Some r \<Rightarrow> 1 \<le> r \<and> r \<le> 5))"

subsection \<open>\<^verbatim>\<open>MemoryStore.import_from_json\<close>\<close>

text \<open>
  \<^verbatim>\<open>for case_data in cases_data\<close>: a list gives its elements, a dict its keys, a string its
  characters; nothing else can be iterated.
\<close>

definition iterate :: "pyval \<Rightarrow> error + pyval list" where
  "iterate v =
     (case v of
        VList vs \<Rightarrow> Inr vs
      | VDict kvs \<Rightarrow> Inr (map (\<lambda>(k, v). VStr k) kvs)
      | VStr s \<Rightarrow> Inr (map (\<lambda>ch. VStr [ch]) s)
      | _ \<Rightarrow> Inl TypeError)"

text \<open>
  The loop of \<^verbatim>\<open>import_from_json\<close>.  On a dict, \<^verbatim>\<open>SupportCase(**case_data)\<close> validates; a
  \<^verbatim>\<open>ValidationError\<close> is caught, the handler prints \<^verbatim>\<open>case_data.get('case_id', 'unknown')\<close> and
  the loop goes on.  On a record that is not a dict, \<^verbatim>\<open>**case_data\<close> raises a \<^verbatim>\<open>TypeError\<close>,
  which is caught too, but then \<^verbatim>\<open>case_data.get\<close> in the handler raises an
  \<^verbatim>\<open>AttributeError\<close> that nothing catches.  The result is the exception or the count,
  together with the store as the loop leaves it.
\<close>

fun import_loop ::
  "datetime \<Rightarrow> pyval list \<Rightarrow> nat \<Rightarrow> MemoryStore \<Rightarrow> (error + nat) \<times> MemoryStore" where
  "import_loop now [] imported_count s = (Inr imported_count, s)"
| "import_loop now (case_data # rest) imported_count s =
     (case case_data of
        VDict d \<Rightarrow>
          (case validate_case now d of
             Some c \<Rightarrow> import_loop now rest (imported_count + 1) (mem_add_case now c s)
           | None \<Rightarrow> import_loop now rest imported_count s)
      | _ \<Rightarrow> (Inl AttributeError, s))"

text \<open>
  \<^verbatim>\<open>import_from_json\<close> on the value that \<^verbatim>\<open>json.loads\<close> returns: \<^verbatim>\<open>data.get("cases", [])\<close>
  needs a dict.
\<close>

definition import_from_json ::
  "datetime \<Rightarrow> pyval \<Rightarrow> MemoryStore \<Rightarrow> (error + nat) \<times> MemoryStore" where
  "import_from_json now data s =
     (case data of
        VDict d \<Rightarrow>
          (case iterate (case map_of d ''cases'' of None \<Rightarrow> VList [] | Some v \<Rightarrow> v) of
             Inl err \<Rightarrow> (Inl err, s)
           | Inr cases_data \<Rightarrow> import_loop now cases_data 0 s)
      | _ \<Rightarrow> (Inl AttributeError, s))"


section \<open>Example data\<close>

text \<open>\<^verbatim>\<open>SupportCase(case_id=cid, title=ttl)\<close>: every other field takes its default,
  the two time stamps the current time.\<close>

definition new_case :: "datetime \<Rightarrow> string \<Rightarrow> string \<Rightarrow> SupportCase" where
  "new_case now cid ttl =
     \<lparr>case_id = cid, title = ttl, customer = None, product_name = None, component = None,
      status = OPEN, priority = MEDIUM, severity = None, created_at = now, updated_at = now,
      due_date = None, symptoms = [], error_messages = [], reproduction_steps = [],
      root_cause = None, solution = None, workaround = None, logs = [], law_uri = None,
      dcr_uri = None, tags = [], category = None, subcategory = None, escalation_flags = [],
      brandon_flags = [], related_cases = [], parent_case = None, description = [],
      rendered_description = None, case_notes = [], metrics = default_metrics,
      custom_fields = []\<rparr>"

text \<open>The three cases of the specification's scenario.\<close>

definition case_A :: SupportCase where
  "case_A = new_case 0 ''A'' ''database timeout''"

definition case_B :: SupportCase where
  "case_B = new_case 0 ''B'' ''API 503 errors''"

definition case_C :: SupportCase where
  "case_C = new_case 0 ''C'' ''database connection pool exhausted''"

text \<open>A case built with two tags of one name: the constructor takes any list of tags.\<close>

definition twice_tagged :: SupportCase where
  "twice_tagged =
     (new_case 0 ''T'' ''twice tagged'')
       \<lparr>tags := [\<lparr>name = ''db'', confidence = 1, source = ''import''\<rparr>,
                 \<lparr>name = ''db'', confidence = 1, source = ''import''\<rparr>]\<rparr>"

text \<open>
  A stand-in for the sentence encoder, with unit vectors in two dimensions, and the
  scenario's store under either backend: the cases \<open>A\<close>, \<open>B\<close> and \<open>C\<close> added in this order at
  the times 1, 2 and 3.
\<close>

definition toy_enc :: "string \<Rightarrow> real list" where
  "toy_enc text =
     (if text = ''database'' \<or> text = ''database timeout'' then [1, 0]
      else if text = ''database connection pool exhausted'' then [3 / 5, 4 / 5]
      else [- 1, 0])"



definition empty_vector_manager :: SCPManager where
  "empty_vector_manager = \<lparr>memory = [], search_engine = Vector empty_vector_engine\<rparr>"

definition scenario :: "SCPManager \<Rightarrow> SCPManager" where
  "scenario m =
     scp_add_case 3 toy_enc case_C (scp_add_case 2 toy_enc case_B (scp_add_case 1 toy_enc case_A m))"

definition scenario_store :: MemoryStore where
  "scenario_store =
     [(''A'', case_A\<lparr>updated_at := 1\<rparr>), (''B'', case_B\<lparr>updated_at := 2\<rparr>),
      (''C'', case_C\<lparr>updated_at := 3\<rparr>)]"

definition scenario_index :: VectorSearchEngine where
  "scenario_index =
     \<lparr>vec_index = [[1, 0], [- 1, 0], [3 / 5, 4 / 5]], vec_case_ids = [''A'', ''B'', ''C'']\<rparr>"



text \<open>The query for \<^verbatim>\<open>"database"\<close> with the id allowlist \<^verbatim>\<open>["C"]\<close>.\<close>

definition query_only_C :: CaseQuery where
  "query_only_C = (text_query ''database'')\<lparr>q_case_ids := Some [''C'']\<rparr>"


text \<open>Records of an import batch: a valid one, and one without the required title.\<close>

definition record_A :: pyval where
  "record_A = VDict [(''case_id'', VStr ''A''), (''title'', VStr ''database timeout'')]"

definition record_untitled :: pyval where
  "record_untitled = VDict [(''case_id'', VStr ''X'')]"

section \<open>Auxiliary facts\<close>

declare datetime_str.simps [simp del]

subsection \<open>Lists, sorting and loops that may raise\<close>

lemma truthy_simps [simp]:
  "truthy None = False" "truthy (Some []) = False" "truthy (Some (x # xs)) = True"
  by (simp_all add: truthy_def)

lemma set_py_take: "set (py_take k xs) \<subseteq> set xs"
  by (auto simp: py_take_def dest: in_set_takeD)

lemma set_sort_desc [simp]: "set (sort_desc f xs) = set xs"
  by (simp add: sort_desc_def)

lemma length_sort_desc [simp]: "length (sort_desc f xs) = length xs"
  by (simp add: sort_desc_def)




lemma collect_Inr: "collect xs = Inr rs \<Longrightarrow> xs = map Inr rs"
  by (induction xs arbitrary: rs) (auto split: sum.splits)



subsection \<open>The store\<close>

lemma map_fst_update_indep: "map fst (AList.update k v al) = map fst (AList.update k w al)"
  by (induction al) auto

lemma update_update_same: "AList.update k v (AList.update k w al) = AList.update k v al"
  by (induction al) auto

lemma list_all_update:
  "list_all P al \<Longrightarrow> P (k, v) \<Longrightarrow> list_all P (AList.update k v al)"
  by (induction al) auto


lemma store_inv_add: "store_inv s \<Longrightarrow> store_inv (mem_add_case t c s)"
  unfolding store_inv_def mem_add_case_def
  by (simp add: distinct_update list_all_update)

lemma store_inv_delete: "store_inv s \<Longrightarrow> store_inv (snd (mem_delete_case cid s))"
  unfolding store_inv_def mem_delete_case_def
  by (auto simp: AList.delete_eq list_all_iff distinct_map_filter)

lemma store_inv_lookup: "store_inv s \<Longrightarrow> map_of s k = Some c \<Longrightarrow> case_id c = k"
  by (auto simp: store_inv_def list_all_iff dest!: map_of_SomeD)



subsection \<open>Tags\<close>

lemma add_tag_distinct:
  "distinct (map name (tags c)) \<Longrightarrow> distinct (map name (tags (snd (add_tag n conf src c))))"
  by (auto simp: add_tag_def Let_def distinct_map_filter)

lemma add_tags_distinct:
  "distinct (map name (tags c)) \<Longrightarrow> distinct (map name (tags (add_tags ops c)))"
  by (induction ops c rule: add_tags.induct) (auto simp: add_tag_distinct)

subsection \<open>The lexical index\<close>






lemma simple_search_ids:
  assumes "(cid, s) \<in> set (simple_search q k th e)"
  shows "cid \<in> fst ` set e"
proof -
  let ?F = "\<lambda>(cid, c).
      let case_words = split (lower (get_text_content c))
      in if 0 < card (set (split (lower q)) \<union> set case_words)
         then (if th \<le> jaccard (split (lower q)) case_words
               then [(cid, jaccard (split (lower q)) case_words)] else [])
         else []"
  from assms have "(cid, s) \<in> set (py_take k (sort_desc snd (concat (map ?F e))))"
    by (simp add: simple_search_def Let_def split: if_splits)
  with set_py_take have "(cid, s) \<in> set (concat (map ?F e))"
    by fastforce
  then obtain k' c' where in_e: "(k', c') \<in> set e" and mem: "(cid, s) \<in> set (?F (k', c'))"
    by auto
  from mem have "cid = k'"
    by (auto simp: Let_def split: if_splits)
  with in_e show ?thesis
    by (metis fst_conv image_eqI)
qed

lemma simple_find_similar_excludes_self:
  "case_id c \<notin> fst ` set (simple_find_similar_cases c k th e)"
  by (auto simp: simple_find_similar_cases_def)

subsection \<open>The embedding index\<close>

lemma vec_hit_pad [simp]: "vec_hit ids th (s, - 1) = []"
  by (simp add: vec_hit_def)











subsection \<open>The orchestrator\<close>





lemma in_similar_hit:
  assumes "Inr r \<in> set (similar_hit s cid (sid, score))"
  shows "sid \<noteq> cid \<and> (\<exists>sc. mem_get_case s sid = Some sc \<and> make_result sc score = Inr r)"
proof (cases "sid = cid")
  case True
  with assms show ?thesis by (simp add: similar_hit_def)
next
  case False
  with assms show ?thesis
    by (cases "mem_get_case s sid") (simp_all add: similar_hit_def)
qed

lemma in_similar_hits:
  assumes "Inr r \<in> set (concat (map (similar_hit s cid) xs))"
  shows "\<exists>sid score sc. sid \<noteq> cid \<and> mem_get_case s sid = Some sc \<and> make_result sc score = Inr r"
proof -
  from assms obtain x where "Inr r \<in> set (similar_hit s cid x)"
    by auto
  with in_similar_hit[of r s cid "fst x" "snd x"] show ?thesis
    by auto
qed

lemma scp_find_similar_excludes_self:
  assumes "store_inv (memory m)" and "scp_find_similar_cases enc cid k th m = Inr rs"
  shows "cid \<notin> set (map (\<lambda>r. case_id (result_case r)) rs)"
proof
  assume "cid \<in> set (map (\<lambda>r. case_id (result_case r)) rs)"
  then obtain r where r: "r \<in> set rs" and same: "case_id (result_case r) = cid"
    by auto
  from assms(2) r obtain similar where
    "collect (concat (map (similar_hit (memory m) cid) similar)) = Inr rs"
    by (auto simp: scp_find_similar_cases_def split: option.splits sum.splits)
  then have "concat (map (similar_hit (memory m) cid) similar) = map Inr rs"
    by (rule collect_Inr)
  with r have "Inr r \<in> set (concat (map (similar_hit (memory m) cid) similar))"
    by simp
  from in_similar_hits[OF this] obtain sid score sc where "sid \<noteq> cid"
    and "mem_get_case (memory m) sid = Some sc" and "make_result sc score = Inr r"
    by blast
  then have "case_id (result_case r) = sid" and "sid \<noteq> cid"
    using store_inv_lookup[OF assms(1), of sid sc]
    by (auto simp: make_result_def mem_get_case_def split: if_splits)
  with same show False by simp
qed

subsection \<open>Time stamps, JSON and validation\<close>

lemma digit_val_digit_char: "n < 10 \<Longrightarrow> digit_val (digit_char n) = Some n"
proof -
  assume "n < 10"
  then have "n \<in> {0, 1, 2, 3, 4, 5, 6, 7, 8, 9}" by auto
  then show ?thesis
    by (auto simp: digit_val_def digit_char_def)
qed

lemma read_digits_snoc:
  "read_digits acc (s @ [ch])
   = (case read_digits acc s of
        None \<Rightarrow> None
      | Some a \<Rightarrow> (case digit_val ch of None \<Rightarrow> None | Some v \<Rightarrow> Some (a * 10 + v)))"
  by (induction s arbitrary: acc) (auto split: option.splits)

lemma read_digits_datetime_str: "read_digits 0 (datetime_str n) = Some n"
proof (induction n rule: datetime_str.induct)
  case (1 n)
  show ?case
  proof (cases "n < 10")
    case True
    then show ?thesis
      by (subst datetime_str.simps) (simp add: digit_val_digit_char)
  next
    case False
    with 1 have "read_digits 0 (datetime_str (n div 10)) = Some (n div 10)"
      by simp
    with False show ?thesis
      by (subst datetime_str.simps) (simp add: read_digits_snoc digit_val_digit_char)
  qed
qed

lemma datetime_str_nonempty: "datetime_str n \<noteq> []"
  by (subst datetime_str.simps) simp

lemma parse_datetime_str [simp]: "parse_datetime (datetime_str n) = Some n"
  by (simp add: parse_datetime_def datetime_str_nonempty read_digits_datetime_str)









lemma flag_of_value [simp]: "flag_of (flag_value f) = Some f"
  by (cases f) (simp_all add: flag_of_def flag_value_def)




lemma json_value_simple [simp]:
  "json_value (opt_str_val s) = opt_str_val s"
  "json_value (opt_float_val r) = opt_float_val r"
  "json_value (str_list_val xs) = str_list_val xs"
  by (simp_all add: opt_str_val_def opt_float_val_def str_list_val_def split: option.splits)












lemma import_loop_objects:
  "import_loop now (map VDict ds) n s
   = (Inr (n + length (filter (\<lambda>d. validate_case now d \<noteq> None) ds)),
      foldl (\<lambda>s d. case validate_case now d of None \<Rightarrow> s | Some c \<Rightarrow> mem_add_case now c s) s ds)"
  by (induction ds arbitrary: n s) (auto split: option.splits)

subsection \<open>The values of the example data\<close>

lemma case_ids_ABC [simp]:
  "case_id case_A = ''A''" "case_id case_B = ''B''" "case_id case_C = ''C''"
  by (simp_all add: case_A_def case_B_def case_C_def new_case_def)

lemma text_ABC [simp]:
  "get_text_content case_A = ''database timeout''"
  "get_text_content case_B = ''API 503 errors''"
  "get_text_content case_C = ''database connection pool exhausted''"
  by (simp_all add: case_A_def case_B_def case_C_def new_case_def get_text_content_def opt_part_def)

lemma text_updated [simp]: "get_text_content (c\<lparr>updated_at := t\<rparr>) = get_text_content c"
  by (simp add: get_text_content_def)


lemma encode_ABC:
  "encode_text toy_enc ''database timeout'' = [1, 0]"
  "encode_text toy_enc ''API 503 errors'' = [- 1, 0]"
  "encode_text toy_enc ''database connection pool exhausted'' = [3 / 5, 4 / 5]"
  "encode_text toy_enc ''database'' = [1, 0]"
  by (simp_all add: encode_text_def toy_enc_def is_space_def)

lemma scenario_vector:
  "scenario empty_vector_manager = \<lparr>memory = scenario_store, search_engine = Vector scenario_index\<rparr>"
  by (simp add: scenario_def empty_vector_manager_def scp_add_case_def mem_add_case_def Let_def
      vec_add_case_def empty_vector_engine_def scenario_store_def scenario_index_def encode_ABC)




lemma text_query_simps [simp]:
  "query (text_query t) = t" "limit (text_query t) = 10"
  by (simp_all add: text_query_def)

lemma query_only_C_simps [simp]:
  "query query_only_C = ''database''" "limit query_only_C = 10"
  by (simp_all add: query_only_C_def text_query_def)



















lemma valid_new_case [simp]: "valid_case (new_case t cid ttl)"
  by (simp add: valid_case_def new_case_def default_metrics_def)

lemma valid_case_updated [simp]: "valid_case (c\<lparr>updated_at := t\<rparr>) = valid_case c"
  by (simp add: valid_case_def)




lemma validate_record_A: "validate_case 9 [(''case_id'', VStr ''A''), (''title'', VStr ''database timeout'')]
   = Some (new_case 9 ''A'' ''database timeout'')"
  by (simp add: validate_case_def req_str_def opt_str_def str_or_def datetime_or_def
      opt_datetime_def list_field_def validate_metrics_def new_case_def)

lemma validate_record_untitled: "validate_case 9 [(''case_id'', VStr ''X'')] = None"
  by (simp add: validate_case_def req_str_def)


section \<open>The claims\<close>

subsection \<open>C1: find-similar and the case asked for\<close>

text \<open>
  Claim C1.  \<^verbatim>\<open>find_similar(c.case_id)\<close> never includes \<open>c.case_id\<close> itself, on either index and
  through the orchestrator.  \<^verbatim>\<open>SimpleSearchEngine.find_similar_cases\<close> filters the id out and
  so does \<^verbatim>\<open>SCPManager.find_similar_cases\<close> (lemmas \<open>simple_find_similar_excludes_self\<close>
  and \<open>scp_find_similar_excludes_self\<close> above).  \<^verbatim>\<open>VectorSearchEngine.find_similar_cases\<close>
  asks \<^verbatim>\<open>search\<close> for \<open>k + 1\<close> results, "to exclude self", and returns them as they are: in
  the scenario's index, find-similar for the stored case \<open>A\<close> returns \<open>A\<close> itself, first.
\<close>

theorem vec_find_similar_returns_self:
  "search_engine (scenario empty_vector_manager) = Vector scenario_index
   \<and> mem_get_case (memory (scenario empty_vector_manager)) ''A'' = Some (case_A\<lparr>updated_at := 1\<rparr>)
   \<and> vec_find_similar_cases toy_enc (case_A\<lparr>updated_at := 1\<rparr>) 5 (1 / 10) scenario_index
       = Inr [(''A'', 1), (''C'', 3 / 5)]"
  by (simp add: scenario_vector mem_get_case_def scenario_store_def
      vec_find_similar_cases_def vec_search_def scenario_index_def faiss_search_def
      encode_ABC inner_product_def sort_desc_def vec_hit_def Let_def)

subsection \<open>C2: bounds and order of the scores of a search\<close>




subsection \<open>C3: the orchestrator under the lexical backend\<close>




subsection \<open>C4: the orchestrator under the embedding backend\<close>




subsection \<open>C5: upsert\<close>

text \<open>
  Claim C5.  Upsert is idempotent.  After \<^verbatim>\<open>upsert(c)\<close> at time \<open>t1\<close> the object \<open>c\<close> carries
  \<open>updated_at = t1\<close>; storing it again at time \<open>t2\<close> makes \<^verbatim>\<open>get(c.case_id)\<close> return \<open>c\<close> with
  \<open>updated_at = t2\<close>, which is what a single upsert at \<open>t2\<close> stores.  The store after the two
  calls is the store after that single call, the second call adds no key, no call can
  raise, and the invariant of the store is kept.
\<close>

theorem upsert_idempotent:
  "mem_get_case (mem_add_case t1 c s) (case_id c) = Some (c\<lparr>updated_at := t1\<rparr>)
   \<and> mem_get_case (mem_add_case t2 (c\<lparr>updated_at := t1\<rparr>) (mem_add_case t1 c s)) (case_id c)
       = Some (c\<lparr>updated_at := t2\<rparr>)
   \<and> mem_add_case t2 (c\<lparr>updated_at := t1\<rparr>) (mem_add_case t1 c s) = mem_add_case t2 c s
   \<and> map fst (mem_add_case t2 (c\<lparr>updated_at := t1\<rparr>) (mem_add_case t1 c s))
       = map fst (mem_add_case t1 c s)
   \<and> (store_inv s \<longrightarrow>
        store_inv (mem_add_case t2 (c\<lparr>updated_at := t1\<rparr>) (mem_add_case t1 c s)))"
  using map_fst_update_indep[of "case_id c" "c\<lparr>updated_at := t2\<rparr>" s "c\<lparr>updated_at := t1\<rparr>"]
  by (simp add: mem_get_case_def mem_add_case_def update_conv' update_update_same
      store_inv_add[unfolded mem_add_case_def])

text \<open>
The theorem at a store that holds \<open>B\<close>, for the case \<open>A\<close> and the times 1 and 2.
\<close>

theorem upsert_idempotent_witness:
  "store_inv [(''B'', case_B)]
   \<and> mem_get_case (mem_add_case 2 (case_A\<lparr>updated_at := 1\<rparr>)
          (mem_add_case 1 case_A [(''B'', case_B)])) (case_id case_A)
       = Some (case_A\<lparr>updated_at := 2\<rparr>)
   \<and> map fst (mem_add_case 2 (case_A\<lparr>updated_at := 1\<rparr>)
          (mem_add_case 1 case_A [(''B'', case_B)])) = [''B'', ''A'']
   \<and> store_inv (mem_add_case 2 (case_A\<lparr>updated_at := 1\<rparr>)
          (mem_add_case 1 case_A [(''B'', case_B)]))"
proof -
  note u = upsert_idempotent[of 1 case_A "[(''B'', case_B)]" 2]
  have inv: "store_inv [(''B'', case_B)]"
    by (simp add: store_inv_def case_B_def new_case_def)
  have keys: "map fst (mem_add_case 1 case_A [(''B'', case_B)]) = [''B'', ''A'']"
    by (simp add: mem_add_case_def case_A_def new_case_def)
  from u have got: "mem_get_case (mem_add_case 2 (case_A\<lparr>updated_at := 1\<rparr>)
      (mem_add_case 1 case_A [(''B'', case_B)])) (case_id case_A)
      = Some (case_A\<lparr>updated_at := 2\<rparr>)"
    by blast
  from u have "map fst (mem_add_case 2 (case_A\<lparr>updated_at := 1\<rparr>)
      (mem_add_case 1 case_A [(''B'', case_B)]))
      = map fst (mem_add_case 1 case_A [(''B'', case_B)])"
    by blast
  with keys have same_keys: "map fst (mem_add_case 2 (case_A\<lparr>updated_at := 1\<rparr>)
      (mem_add_case 1 case_A [(''B'', case_B)])) = [''B'', ''A'']"
    by (simp only:)
  from u inv have inv': "store_inv (mem_add_case 2 (case_A\<lparr>updated_at := 1\<rparr>)
      (mem_add_case 1 case_A [(''B'', case_B)]))"
    by blast
  show ?thesis
    using inv got same_keys inv' by blast
qed

subsection \<open>C6: snapshot and restore\<close>




subsection \<open>C7: malformed records of an import\<close>

text \<open>
  Claim C7.  A record of a batch that fails to validate is skipped, the valid remainder is
  imported and counted.  This holds when every record is a JSON object (lemma
  \<open>import_loop_objects\<close> above).  A record that is not an object makes the exception
  handler itself raise: the batch \<open>[42, A]\<close> ends with an \<^verbatim>\<open>AttributeError\<close> and \<open>A\<close> is not
  imported, whereas the batch of an object without title and \<open>A\<close> imports \<open>A\<close> and
  returns 1.
\<close>

theorem import_aborts_on_non_object_record:
  "import_from_json 9 (VDict [(''cases'', VList [VInt 42, record_A])]) [] = (Inl AttributeError, [])
   \<and> import_from_json 9 (VDict [(''cases'', VList [record_untitled, record_A])]) []
       = (Inr 1, [(''A'', new_case 9 ''A'' ''database timeout'')])"
  by (simp add: import_from_json_def iterate_def record_A_def record_untitled_def
      validate_record_A validate_record_untitled mem_add_case_def new_case_def)

subsection \<open>C8: tag names\<close>

text \<open>
  Claim C8, as the code has it.  \<^verbatim>\<open>add_tag\<close> keeps tag names unique: on a case whose tag names
  are pairwise distinct, in particular on a case created without tags, any sequence of
  \<^verbatim>\<open>add_tag\<close> calls leaves them pairwise distinct.  And on any case a call with a confidence
  in \<open>[0, 1]\<close> raises nothing, removes every tag of the given name and appends the new tag,
  so that exactly one tag of that name is left, the new one.
\<close>

theorem add_tag_keeps_names_unique:
  "(distinct (map name (tags c)) \<longrightarrow> distinct (map name (tags (add_tags ops c))))
   \<and> (0 \<le> conf \<and> conf \<le> 1 \<longrightarrow>
        fst (add_tag n conf src c) = None
        \<and> tags (snd (add_tag n conf src c))
            = filter (\<lambda>tag. name tag \<noteq> n) (tags c)
              @ [\<lparr>name = n, confidence = conf, source = src\<rparr>]
        \<and> filter (\<lambda>tag. name tag = n) (tags (snd (add_tag n conf src c)))
            = [\<lparr>name = n, confidence = conf, source = src\<rparr>])"
  by (simp add: add_tags_distinct add_tag_def Let_def)

text \<open>
  The theorem at the case \<open>A\<close>, created without tags, with three calls of which the third
  replaces the tag of the first, and at a case built with two tags of one name.
\<close>

theorem add_tag_keeps_names_unique_witness:
  "distinct (map name (tags case_A))
   \<and> distinct (map name (tags (add_tags [(''db'', 1, ''manual''), (''net'', 1 / 2, ''auto''),
                                         (''db'', 3 / 4, ''manual'')] case_A)))
   \<and> map name (tags (add_tags [(''db'', 1, ''manual''), (''net'', 1 / 2, ''auto''),
                               (''db'', 3 / 4, ''manual'')] case_A)) = [''net'', ''db'']
   \<and> fst (add_tag ''db'' (3 / 4) ''manual'' twice_tagged) = None
   \<and> tags (snd (add_tag ''db'' (3 / 4) ''manual'' twice_tagged))
       = [\<lparr>name = ''db'', confidence = 3 / 4, source = ''manual''\<rparr>]"
proof -
  have d: "distinct (map name (tags case_A))"
    by (simp add: case_A_def new_case_def)
  have names: "map name (tags (add_tags [(''db'', 1, ''manual''), (''net'', 1 / 2, ''auto''),
      (''db'', 3 / 4, ''manual'')] case_A)) = [''net'', ''db'']"
    by (simp add: add_tag_def case_A_def new_case_def)
  have t: "tags twice_tagged = [\<lparr>name = ''db'', confidence = 1, source = ''import''\<rparr>,
      \<lparr>name = ''db'', confidence = 1, source = ''import''\<rparr>]"
    by (simp add: twice_tagged_def)
  show ?thesis
    using add_tag_keeps_names_unique[of case_A "[(''db'', 1, ''manual''), (''net'', 1 / 2, ''auto''),
        (''db'', 3 / 4, ''manual'')]" "3 / 4" "''db''" "''manual''"]
      add_tag_keeps_names_unique[of twice_tagged "[]" "3 / 4" "''db''" "''manual''"] d names t
    by simp
qed

text \<open>
  Claim C8 as stated fails on a case that was built with two tags of one name: \<^verbatim>\<open>add_tag\<close>
  of another name leaves both in place.
\<close>

theorem add_tag_duplicate_counterexample:
  "map name (tags (add_tags [(''net'', 1, ''manual'')] twice_tagged)) = [''db'', ''db'', ''net'']
   \<and> \<not> distinct (map name (tags (add_tags [(''net'', 1, ''manual'')] twice_tagged)))"
  by (simp add: add_tag_def twice_tagged_def)

subsection \<open>C9: a deleted case\<close>



subsection \<open>C10: empty filter lists\<close>

text \<open>
  Claim C10.  In the store's filter operation an empty id allowlist, an empty status
  filter and an empty priority filter each switch their predicate off: the result is the
  one obtained with no list at all, and with all three empty and no text every stored case
  is returned.
\<close>

theorem empty_filter_list_disables_predicate:
  "mem_search_cases q sf pf (Some []) s = mem_search_cases q sf pf None s
   \<and> mem_search_cases q (Some []) pf ids s = mem_search_cases q None pf ids s
   \<and> mem_search_cases q sf (Some []) ids s = mem_search_cases q sf None ids s
   \<and> mem_search_cases [] (Some []) (Some []) (Some []) s = mem_get_all_cases s"
  by (simp add: mem_search_cases_def mem_get_all_cases_def)

end
